theory Spec2Isabelle
  imports Main "HOL-Library.Word"
begin

section \<open>Python values and exceptions\<close>

text \<open>
  The two nodes of \<^verbatim>\<open>src/nodes/groq_api_llm.py\<close> and \<^verbatim>\<open>src/nodes/groq_api_vlm.py\<close> build one
  chat-completion request and post it in a bounded retry loop. The values that flow through
  that code are Python objects built from JSON: \<^verbatim>\<open>None\<close>, booleans, integers, strings, lists
  and dictionaries with string keys. A dictionary is an association list read with
  \<^const>\<open>map_of\<close>. A JSON float plays no part below other than not being subscriptable, which
  it shares with \<open>PyInt\<close>.
\<close>

datatype py_value =
    PyNone
  | PyBool bool
  | PyInt int
  | PyStr string
  | PyList "py_value list"
  | PyDict "(string \<times> py_value) list"

text \<open>
  Exceptions are values. \<open>RequestException\<close> stands for \<^verbatim>\<open>requests.exceptions.RequestException\<close>
  and all its subclasses and carries \<^verbatim>\<open>str(e)\<close>; it is the only class the retry loop catches.
  \<open>OtherException\<close> is any exception of another class that a library call may raise.
\<close>

datatype py_exception =
    RequestException string
  | KeyError py_value
  | IndexError
  | TypeError
  | ZeroDivisionError
  | OtherException string

text \<open>\<^verbatim>\<open>v[k]\<close> for a string key \<open>k\<close>: only a dictionary accepts it.\<close>

fun subscript_key :: "py_value \<Rightarrow> string \<Rightarrow> py_exception + py_value" where
  "subscript_key (PyDict kvs) k =
     (case map_of kvs k of None \<Rightarrow> Inl (KeyError (PyStr k)) | Some v \<Rightarrow> Inr v)"
| "subscript_key v k = Inl TypeError"

text \<open>
  \<^verbatim>\<open>v[i]\<close> for an index \<open>i \<ge> 0\<close>: a list or a string yields its element or raises
  \<^verbatim>\<open>IndexError\<close>; a dictionary decoded from JSON has string keys only, so the integer is a
  missing key; anything else is not subscriptable.
\<close>

fun subscript_index :: "py_value \<Rightarrow> nat \<Rightarrow> py_exception + py_value" where
  "subscript_index (PyList xs) i = (if i < length xs then Inr (xs ! i) else Inl IndexError)"
| "subscript_index (PyStr s) i = (if i < length s then Inr (PyStr [s ! i]) else Inl IndexError)"
| "subscript_index (PyDict kvs) i = Inl (KeyError (PyInt (int i)))"
| "subscript_index v i = Inl TypeError"

text \<open>\<^verbatim>\<open>response.json()['choices'][0]['message']['content']\<close>, applied to the decoded body.\<close>

definition first_choice_content :: "py_value \<Rightarrow> py_exception + py_value" where
  "first_choice_content body =
     (case subscript_key body ''choices'' of
        Inl e \<Rightarrow> Inl e
      | Inr choices \<Rightarrow>
         (case subscript_index choices 0 of
            Inl e \<Rightarrow> Inl e
          | Inr choice \<Rightarrow>
             (case subscript_key choice ''message'' of
                Inl e \<Rightarrow> Inl e
              | Inr message \<Rightarrow> subscript_key message ''content'')))"

section \<open>Strings\<close>

text \<open>
  \<^verbatim>\<open>str.lower\<close> on the ASCII letters, \<^verbatim>\<open>in\<close> on strings and \<^verbatim>\<open>str.split(',')\<close>. A string
  is a list of bytes here; \<open>lower\<close> leaves the bytes outside ASCII alone.
\<close>

definition lower_char :: "char \<Rightarrow> char" where
  "lower_char c =
     (if (65::nat) \<le> of_char c \<and> of_char c \<le> (90::nat) then char_of (of_char c + (32::nat)) else c)"

definition lower :: "string \<Rightarrow> string" where
  "lower s = map lower_char s"

fun starts_with :: "'a list \<Rightarrow> 'a list \<Rightarrow> bool" where
  "starts_with [] ys = True"
| "starts_with (x # xs) [] = False"
| "starts_with (x # xs) (y # ys) = (x = y \<and> starts_with xs ys)"

fun contains :: "'a list \<Rightarrow> 'a list \<Rightarrow> bool" where
  "contains sub [] = (sub = [])"
| "contains sub (y # ys) = (starts_with sub (y # ys) \<or> contains sub ys)"

text \<open>The test of the \<^verbatim>\<open>except\<close> clause: \<^verbatim>\<open>'rate limit' in str(e).lower()\<close>.\<close>

definition rate_limited :: "string \<Rightarrow> bool" where
  "rate_limited msg = contains ''rate limit'' (lower msg)"

fun split_on :: "char \<Rightarrow> string \<Rightarrow> string list" where
  "split_on sep [] = [[]]"
| "split_on sep (c # cs) =
     (if c = sep then [] # split_on sep cs
      else (case split_on sep cs of [] \<Rightarrow> [[c]] | w # ws \<Rightarrow> (c # w) # ws))"

text \<open>
  \<^verbatim>\<open>str.strip()\<close> removes from both ends every character for which \<^verbatim>\<open>str.isspace\<close> holds:
  U+0009 to U+000D, U+001C to U+0020, U+0085, U+00A0, U+1680, U+2000 to U+200A, U+2028,
  U+2029, U+202F, U+205F and U+3000. A string is the list of the bytes of its UTF-8
  encoding, so each of these characters is the one, two or three bytes below. No encoding
  of a character begins or ends another's, so removing these byte sequences from the ends
  of a string removes exactly these characters.
\<close>

definition whitespace :: "string list" where
  "whitespace =
     [[CHR 0x09], [CHR 0x0A], [CHR 0x0B], [CHR 0x0C], [CHR 0x0D],
      [CHR 0x1C], [CHR 0x1D], [CHR 0x1E], [CHR 0x1F], [CHR 0x20],
      [CHR 0xC2, CHR 0x85], [CHR 0xC2, CHR 0xA0], [CHR 0xE1, CHR 0x9A, CHR 0x80],
      [CHR 0xE2, CHR 0x80, CHR 0x80], [CHR 0xE2, CHR 0x80, CHR 0x81],
      [CHR 0xE2, CHR 0x80, CHR 0x82], [CHR 0xE2, CHR 0x80, CHR 0x83],
      [CHR 0xE2, CHR 0x80, CHR 0x84], [CHR 0xE2, CHR 0x80, CHR 0x85],
      [CHR 0xE2, CHR 0x80, CHR 0x86], [CHR 0xE2, CHR 0x80, CHR 0x87],
      [CHR 0xE2, CHR 0x80, CHR 0x88], [CHR 0xE2, CHR 0x80, CHR 0x89],
      [CHR 0xE2, CHR 0x80, CHR 0x8A], [CHR 0xE2, CHR 0x80, CHR 0xA8],
      [CHR 0xE2, CHR 0x80, CHR 0xA9], [CHR 0xE2, CHR 0x80, CHR 0xAF],
      [CHR 0xE2, CHR 0x81, CHR 0x9F], [CHR 0xE3, CHR 0x80, CHR 0x80]]"

text \<open>Removing, as long as there is one, a leading occurrence of one of the given sequences.\<close>

function strip_leading :: "string list \<Rightarrow> string \<Rightarrow> string" where
  "strip_leading units s =
     (case List.find (\<lambda>u. u \<noteq> [] \<and> starts_with u s) units of
        None \<Rightarrow> s
      | Some u \<Rightarrow> strip_leading units (drop (length u) s))"
  by pat_completeness auto

termination strip_leading
proof (relation "measure (\<lambda>(units, s). length s)")
  show "wf (measure (\<lambda>(units, s). length s))" by simp
next
  fix units :: "string list" and s u :: string
  assume "List.find (\<lambda>u. u \<noteq> [] \<and> starts_with u s) units = Some u"
  then have found: "u \<noteq> [] \<and> starts_with u s" by (auto simp: find_Some_iff)
  then have "s \<noteq> []" by (cases u; cases s) simp_all
  then show "((units, drop (length u) s), (units, s)) \<in> measure (\<lambda>(units, s). length s)"
    using found by simp
qed

definition strip :: "string \<Rightarrow> string" where
  "strip s = rev (strip_leading (map rev whitespace) (rev (strip_leading whitespace s)))"

section \<open>The node instance\<close>

text \<open>
  \<^verbatim>\<open>self.api_keys\<close>, \<^verbatim>\<open>self.current_key_index\<close> and \<^verbatim>\<open>self.prompt_options\<close>, the same three
  fields in both classes. The index starts at 0 and is only ever assigned a remainder modulo
  a list length, so it is a natural number.
\<close>

record node =
  api_keys :: "string list"
  current_key_index :: nat
  prompt_options :: "string \<rightharpoonup> string"

text \<open>
  What \<^verbatim>\<open>load_api_keys\<close> sees at one of its two configuration paths: the file does not
  exist; \<^verbatim>\<open>config.read\<close> raises; the file is read and \<^verbatim>\<open>'API_KEYS' in config\<close> is false; or
  the section is there and \<^verbatim>\<open>config['API_KEYS']['groq_keys']\<close> raises or yields a string.
\<close>

datatype config_path =
    Missing
  | Unreadable py_exception
  | NoApiKeysSection
  | ApiKeys "py_exception + string"

fun load_api_keys :: "config_path list \<Rightarrow> py_exception + string list" where
  "load_api_keys [] = Inr [''default_api_key'']"
| "load_api_keys (Missing # paths) = load_api_keys paths"
| "load_api_keys (Unreadable e # paths) = Inl e"
| "load_api_keys (NoApiKeysSection # paths) = load_api_keys paths"
| "load_api_keys (ApiKeys (Inl e) # paths) = Inl e"
| "load_api_keys (ApiKeys (Inr groq_keys) # paths) = Inr (map strip (split_on CHR '','' groq_keys))"

text \<open>
  \<^verbatim>\<open>__init__\<close>. The prompt mapping that \<^verbatim>\<open>load_prompt_options\<close> reads from the two prompt
  files is an argument: that method catches every exception and returns a dictionary.
\<close>

definition init :: "config_path list \<Rightarrow> (string \<rightharpoonup> string) \<Rightarrow> py_exception + node" where
  "init config_paths loaded_prompts =
     (case load_api_keys config_paths of
        Inl e \<Rightarrow> Inl e
      | Inr keys \<Rightarrow>
          Inr \<lparr>api_keys = keys, current_key_index = 0, prompt_options = loaded_prompts\<rparr>)"

text \<open>
  \<^verbatim>\<open>get_next_api_key\<close>: the remainder raises \<^verbatim>\<open>ZeroDivisionError\<close> on an empty list, before
  the assignment; otherwise the new index is in range and the read succeeds.
\<close>

definition get_next_api_key :: "node \<Rightarrow> py_exception + (node \<times> string)" where
  "get_next_api_key self =
     (if length (api_keys self) = 0 then Inl ZeroDivisionError
      else
        (let self' = self\<lparr>current_key_index :=
                            (current_key_index self + 1) mod length (api_keys self)\<rparr>
         in Inr (self', api_keys self' ! current_key_index self')))"

definition DEFAULT_PROMPT :: string where
  "DEFAULT_PROMPT = ''Use [system_message] and [user_input]''"

text \<open>\<^verbatim>\<open>GroqAPIVLM.get_prompt_content\<close>: \<^verbatim>\<open>prompt_options.get(preset, "")\<close>.\<close>

definition get_prompt_content :: "(string \<rightharpoonup> string) \<Rightarrow> string \<Rightarrow> string" where
  "get_prompt_content options preset = (case options preset of None \<Rightarrow> '''' | Some v \<Rightarrow> v)"

section \<open>Requests and responses\<close>

text \<open>
  The node parameters that both \<^verbatim>\<open>process_completion_request\<close> methods take. The floats
  \<^verbatim>\<open>temperature\<close> and \<^verbatim>\<open>top_p\<close> are only copied into the request, so their type is a
  parameter. \<^verbatim>\<open>INPUT_TYPES\<close> declares \<^verbatim>\<open>seed\<close> as an integer from 0 to 4294967295, a 32-bit
  word; the three seeding calls at the head of the method act on the generators of torch,
  numpy and random, which nothing below reads. \<^verbatim>\<open>json_mode\<close> is accepted and never used.
\<close>

record 'f inputs =
  model :: string
  preset :: string
  system_message :: string
  user_input :: string
  temperature :: 'f
  max_tokens :: int
  top_p :: 'f
  seed :: "32 word"
  max_retries :: int
  stop :: string
  json_mode :: bool

text \<open>
  The dictionary \<^verbatim>\<open>data\<close>. The key \<^verbatim>\<open>'stop'\<close> is set only under \<^verbatim>\<open>if stop:\<close>, that is for a
  non-empty string.
\<close>

record 'f payload =
  data_model :: string
  data_messages :: py_value
  data_temperature :: 'f
  data_max_tokens :: int
  data_top_p :: 'f
  data_seed :: "32 word"
  data_stop :: "string option"

definition build_data :: "'f inputs \<Rightarrow> py_value \<Rightarrow> 'f payload" where
  "build_data args messages =
     \<lparr>data_model = model args,
      data_messages = messages,
      data_temperature = temperature args,
      data_max_tokens = max_tokens args,
      data_top_p = top_p args,
      data_seed = seed args,
      data_stop = (if stop args = [] then None else Some (stop args))\<rparr>"

text \<open>One call \<^verbatim>\<open>requests.post(url, headers=headers, json=data)\<close>.\<close>

record 'f request =
  url :: string
  authorization :: string
  json :: "'f payload"

definition groq_url :: string where
  "groq_url = ''https://api.groq.com/openai/v1/chat/completions''"

definition request_for :: "node \<Rightarrow> 'f payload \<Rightarrow> 'f request" where
  "request_for self data =
     \<lparr>url = groq_url,
      authorization = ''Bearer '' @ api_keys self ! current_key_index self,
      json = data\<rparr>"

text \<open>
  The response object as the loop uses it: \<^verbatim>\<open>status_code\<close>, what \<^verbatim>\<open>raise_for_status()\<close>
  raises if anything, and what \<^verbatim>\<open>json()\<close> returns or raises. The remote service and the
  requests library are the environment: the outcome of the \<open>k\<close>-th post of one call is
  \<open>remote k\<close>, whatever it may be.
\<close>

record response =
  status_code :: int
  raise_for_status :: "py_exception option"
  json_body :: "py_exception + py_value"

datatype http_outcome = PostRaises py_exception | PostReturns response

type_synonym completion_result = "py_value \<times> bool \<times> py_value"

text \<open>The statements of the \<^verbatim>\<open>try\<close> block after the post, up to its \<^verbatim>\<open>return\<close>.\<close>

definition try_body :: "http_outcome \<Rightarrow> py_exception + completion_result" where
  "try_body outcome =
     (case outcome of
        PostRaises e \<Rightarrow> Inl e
      | PostReturns resp \<Rightarrow>
         (case raise_for_status resp of
            Some e \<Rightarrow> Inl e
          | None \<Rightarrow>
             (case json_body resp of
                Inl e \<Rightarrow> Inl e
              | Inr body \<Rightarrow>
                 (case first_choice_content body of
                    Inl e \<Rightarrow> Inl e
                  | Inr content \<Rightarrow> Inr (content, True, PyInt (status_code resp))))))"

text \<open>
  \<^verbatim>\<open>except requests.exceptions.RequestException as e\<close>: the handler runs for that class
  only and leaves the loop to go on (\<open>Inr\<close>, with the node as it is then); an exception of
  any other class leaves the method (\<open>Inl\<close>).
\<close>

fun except_clause :: "node \<Rightarrow> py_exception \<Rightarrow> py_exception + node" where
  "except_clause self (RequestException msg) =
     (if rate_limited msg then
        (case get_next_api_key self of
           Inl e \<Rightarrow> Inl e
         | Inr (self', key) \<Rightarrow> Inr self')
      else Inr self)"
| "except_clause self e = Inl e"

text \<open>
  What one call of \<^verbatim>\<open>process_completion_request\<close> leaves behind: the value it returns or the
  exception it raises, the node afterwards, and the requests it posted, in order.
\<close>

record 'f run =
  result :: "py_exception + completion_result"
  self_after :: node
  requests_sent :: "'f request list"

definition max_retries_result :: completion_result where
  "max_retries_result =
     (PyStr ''Max retries reached. Unable to complete the request.'', False,
      PyStr ''429 Too Many Requests'')"

text \<open>
  \<^verbatim>\<open>for _ in range(max_retries)\<close> with the \<^verbatim>\<open>return\<close> after it, the same lines in both
  classes. The first number counts the iterations left, the second the posts made so far.
  Reading \<^verbatim>\<open>self.api_keys[self.current_key_index]\<close> out of range raises \<^verbatim>\<open>IndexError\<close>
  inside the \<^verbatim>\<open>try\<close>, which the handler does not catch.
\<close>

fun retry_loop ::
  "(nat \<Rightarrow> http_outcome) \<Rightarrow> 'f payload \<Rightarrow> nat \<Rightarrow> nat \<Rightarrow> node \<Rightarrow> 'f request list \<Rightarrow> 'f run" where
  "retry_loop remote data 0 k self sent =
     \<lparr>result = Inr max_retries_result, self_after = self, requests_sent = sent\<rparr>"
| "retry_loop remote data (Suc n) k self sent =
     (if current_key_index self < length (api_keys self) then
        (case try_body (remote k) of
           Inr r \<Rightarrow>
             \<lparr>result = Inr r, self_after = self,
              requests_sent = sent @ [request_for self data]\<rparr>
         | Inl e \<Rightarrow>
            (case except_clause self e of
               Inl e' \<Rightarrow>
                 \<lparr>result = Inl e', self_after = self,
                  requests_sent = sent @ [request_for self data]\<rparr>
             | Inr self' \<Rightarrow>
                 retry_loop remote data n (Suc k) self' (sent @ [request_for self data])))
      else \<lparr>result = Inl IndexError, self_after = self, requests_sent = sent\<rparr>)"

section \<open>The text node\<close>

text \<open>
  \<^verbatim>\<open>GroqAPILLM.process_completion_request\<close>. Its \<^verbatim>\<open>get_prompt_content\<close> is imported from
  \<^verbatim>\<open>utils/api_utils\<close>, a module that is not among the sources at hand, so it is the
  argument \<open>api_utils_get_prompt_content\<close>.
\<close>

definition llm_system_message ::
  "((string \<rightharpoonup> string) \<Rightarrow> string \<Rightarrow> string) \<Rightarrow> node \<Rightarrow> 'f inputs \<Rightarrow> string" where
  "llm_system_message api_utils_get_prompt_content self args =
     (if preset args = DEFAULT_PROMPT then system_message args
      else api_utils_get_prompt_content (prompt_options self) (preset args))"

definition llm_messages :: "string \<Rightarrow> string \<Rightarrow> py_value" where
  "llm_messages system_text user_text =
     PyList
       [PyDict [(''role'', PyStr ''system''), (''content'', PyStr system_text)],
        PyDict [(''role'', PyStr ''user''), (''content'', PyStr user_text)]]"

definition llm_data ::
  "((string \<rightharpoonup> string) \<Rightarrow> string \<Rightarrow> string) \<Rightarrow> node \<Rightarrow> 'f inputs \<Rightarrow> 'f payload" where
  "llm_data api_utils_get_prompt_content self args =
     build_data args
       (llm_messages (llm_system_message api_utils_get_prompt_content self args)
          (user_input args))"

definition llm_process_completion_request ::
  "((string \<rightharpoonup> string) \<Rightarrow> string \<Rightarrow> string) \<Rightarrow> (nat \<Rightarrow> http_outcome) \<Rightarrow> node \<Rightarrow>
   'f inputs \<Rightarrow> 'f run" where
  "llm_process_completion_request api_utils_get_prompt_content remote self args =
     retry_loop remote (llm_data api_utils_get_prompt_content self args)
       (nat (max_retries args)) 0 self []"

section \<open>The vision node\<close>

text \<open>
  The \<^verbatim>\<open>image\<close> argument (\<open>image_arg\<close> below) is \<^verbatim>\<open>None\<close>, an object that is not a \<^verbatim>\<open>torch.Tensor\<close>, or a
  tensor. \<^verbatim>\<open>tensor_to_pil\<close> and \<^verbatim>\<open>encode_image\<close> come from \<^verbatim>\<open>utils/image_utils\<close>, which is
  not among the sources at hand; they are arguments, and \<^verbatim>\<open>encode_image\<close> yields \<^verbatim>\<open>None\<close> or
  a string. \<^verbatim>\<open>if base64_image:\<close> holds for a non-empty string only.
\<close>

datatype 't image_argument = ImageNone | NotATensor | Tensor 't

definition truthy :: "string option \<Rightarrow> bool" where
  "truthy base64_image = (case base64_image of None \<Rightarrow> False | Some s \<Rightarrow> s \<noteq> [])"

definition vlm_system_message :: "node \<Rightarrow> 'f inputs \<Rightarrow> string" where
  "vlm_system_message self args =
     (if preset args = DEFAULT_PROMPT then system_message args
      else get_prompt_content (prompt_options self) (preset args))"

definition image_content :: "string \<Rightarrow> string \<Rightarrow> string \<Rightarrow> py_value" where
  "image_content system_text user_text base64_image =
     PyDict
       [(''role'', PyStr ''user''),
        (''content'',
         PyList
           [PyDict [(''type'', PyStr ''text''),
                    (''text'', PyStr (system_text @ [CHR 0x0A] @ user_text))],
            PyDict [(''type'', PyStr ''image_url''),
                    (''image_url'',
                     PyDict [(''url'', PyStr (''data:image/jpeg;base64,'' @ base64_image))])]])]"

definition vlm_messages :: "string \<Rightarrow> string \<Rightarrow> string option \<Rightarrow> py_value" where
  "vlm_messages system_text user_text base64_image =
     (case base64_image of
        None \<Rightarrow> PyList []
      | Some encoded \<Rightarrow>
          (if truthy base64_image then PyList [image_content system_text user_text encoded]
           else PyList []))"

definition image_required_result :: completion_result where
  "image_required_result =
     (PyStr ''Image is required for VLM models.'', False, PyStr ''400 Bad Request'')"

definition vlm_data ::
  "('t \<Rightarrow> 'p) \<Rightarrow> ('p \<Rightarrow> string option) \<Rightarrow> node \<Rightarrow> 'f inputs \<Rightarrow> 't \<Rightarrow> 'f payload" where
  "vlm_data tensor_to_pil encode_image self args tensor =
     build_data args
       (vlm_messages (vlm_system_message self args) (user_input args)
          (encode_image (tensor_to_pil tensor)))"

definition vlm_process_completion_request ::
  "('t \<Rightarrow> 'p) \<Rightarrow> ('p \<Rightarrow> string option) \<Rightarrow> (nat \<Rightarrow> http_outcome) \<Rightarrow> node \<Rightarrow> 'f inputs \<Rightarrow>
   't image_argument \<Rightarrow> 'f run" where
  "vlm_process_completion_request tensor_to_pil encode_image remote self args image_arg =
     (case image_arg of
        Tensor tensor \<Rightarrow>
          retry_loop remote (vlm_data tensor_to_pil encode_image self args tensor)
            (nat (max_retries args)) 0 self []
      | _ \<Rightarrow> \<lparr>result = Inr image_required_result, self_after = self, requests_sent = []\<rparr>)"

section \<open>Properties of a node and of one attempt\<close>

text \<open>The cursor points into a non-empty pool.\<close>

definition valid_cursor :: "node \<Rightarrow> bool" where
  "valid_cursor self = (api_keys self \<noteq> [] \<and> current_key_index self < length (api_keys self))"

fun is_request_exception :: "py_exception \<Rightarrow> bool" where
  "is_request_exception (RequestException msg) = True"
| "is_request_exception e = False"

text \<open>
  An attempt fails when its \<^verbatim>\<open>try\<close> block raises; the failure is caught when the exception
  is one the \<^verbatim>\<open>except\<close> clause names.
\<close>

definition attempt_fails :: "http_outcome \<Rightarrow> bool" where
  "attempt_fails outcome = (case try_body outcome of Inl e \<Rightarrow> True | Inr r \<Rightarrow> False)"

definition attempt_caught :: "http_outcome \<Rightarrow> bool" where
  "attempt_caught outcome =
     (case try_body outcome of Inl e \<Rightarrow> is_request_exception e | Inr r \<Rightarrow> False)"

text \<open>The failure escapes when the exception is of any other class.\<close>

definition attempt_escapes :: "http_outcome \<Rightarrow> bool" where
  "attempt_escapes outcome =
     (case try_body outcome of Inl e \<Rightarrow> \<not> is_request_exception e | Inr r \<Rightarrow> False)"

section \<open>Sample nodes, inputs and remote behaviours\<close>

definition two_key_node :: node where
  "two_key_node =
     \<lparr>api_keys = [''gsk_first'', ''gsk_second''], current_key_index = 0,
      prompt_options = [''Poet'' \<mapsto> ''Answer in verse.'']\<rparr>"

definition sample_inputs :: "string inputs" where
  "sample_inputs =
     \<lparr>model = ''llama-3.1-8b-instant'', preset = DEFAULT_PROMPT,
      system_message = ''Be brief.'', user_input = ''Hello'', temperature = ''0.85'',
      max_tokens = 1024, top_p = ''1.0'', seed = 42, max_retries = 2, stop = [],
      json_mode = False\<rparr>"

definition sample_tensor_to_pil :: "string \<Rightarrow> string" where
  "sample_tensor_to_pil tensor = tensor"

definition sample_encode_image :: "string \<Rightarrow> string option" where
  "sample_encode_image picture = (if picture = [] then None else Some picture)"

definition refusing_remote :: "nat \<Rightarrow> http_outcome" where
  "refusing_remote k = PostRaises (RequestException ''Connection refused'')"

text \<open>A refused connection first, then status 200 with the empty JSON object.\<close>

definition refused_then_empty_remote :: "nat \<Rightarrow> http_outcome" where
  "refused_then_empty_remote k =
     (if k = 0 then PostRaises (RequestException ''Connection refused'')
      else PostReturns
             \<lparr>status_code = 200, raise_for_status = None, json_body = Inr (PyDict [])\<rparr>)"

definition rate_limiting_remote :: "nat \<Rightarrow> http_outcome" where
  "rate_limiting_remote k = PostRaises (RequestException ''Rate limit reached for model'')"

definition answering_remote :: "nat \<Rightarrow> http_outcome" where
  "answering_remote k =
     PostReturns
       \<lparr>status_code = 200, raise_for_status = None,
        json_body =
          Inr (PyDict
                 [(''choices'',
                   PyList [PyDict [(''message'', PyDict [(''content'', PyStr ''Hi there'')])]])])\<rparr>"

definition empty_object_remote :: "nat \<Rightarrow> http_outcome" where
  "empty_object_remote k =
     PostReturns \<lparr>status_code = 200, raise_for_status = None, json_body = Inr (PyDict [])\<rparr>"

section \<open>The declared return types\<close>

text \<open>
  Both classes declare \<^verbatim>\<open>RETURN_TYPES = ("STRING", "BOOLEAN", "STRING")\<close> with
  \<^verbatim>\<open>RETURN_NAMES = ("api_response", "success", "status_code")\<close>. A value has a declared type
  when it is a Python object of the matching class.
\<close>

definition RETURN_TYPES :: "string list" where
  "RETURN_TYPES = [''STRING'', ''BOOLEAN'', ''STRING'']"

definition has_type :: "string \<Rightarrow> py_value \<Rightarrow> bool" where
  "has_type declared v =
     (case v of
        PyStr s \<Rightarrow> declared = ''STRING''
      | PyBool b \<Rightarrow> declared = ''BOOLEAN''
      | PyInt i \<Rightarrow> declared = ''INT''
      | _ \<Rightarrow> False)"

definition matches_return_types :: "completion_result \<Rightarrow> bool" where
  "matches_return_types r =
     (case r of (text, success, status) \<Rightarrow>
        list_all2 has_type RETURN_TYPES [text, PyBool success, status])"

section \<open>Sequences of operations on one node\<close>

text \<open>
  What can happen to a node after \<^verbatim>\<open>__init__\<close>: a call of \<^verbatim>\<open>get_next_api_key\<close>, or a call
  of \<^verbatim>\<open>process_completion_request\<close> of either class, each against any remote behaviour. An
  operation that raises leaves the node as the raise found it.
\<close>

datatype ('f, 't) operation =
    Rotate
  | DispatchLLM "nat \<Rightarrow> http_outcome" "'f inputs"
  | DispatchVLM "nat \<Rightarrow> http_outcome" "'f inputs" "'t image_argument"

fun apply_operation ::
  "((string \<rightharpoonup> string) \<Rightarrow> string \<Rightarrow> string) \<Rightarrow> ('t \<Rightarrow> 'p) \<Rightarrow> ('p \<Rightarrow> string option) \<Rightarrow>
   node \<Rightarrow> ('f, 't) operation \<Rightarrow> node" where
  "apply_operation api_utils_get_prompt_content tensor_to_pil encode_image self Rotate =
     (case get_next_api_key self of Inl e \<Rightarrow> self | Inr (self', key) \<Rightarrow> self')"
| "apply_operation api_utils_get_prompt_content tensor_to_pil encode_image self
     (DispatchLLM remote args) =
     self_after (llm_process_completion_request api_utils_get_prompt_content remote self args)"
| "apply_operation api_utils_get_prompt_content tensor_to_pil encode_image self
     (DispatchVLM remote args image_arg) =
     self_after
       (vlm_process_completion_request tensor_to_pil encode_image remote self args image_arg)"

definition run_operations ::
  "((string \<rightharpoonup> string) \<Rightarrow> string \<Rightarrow> string) \<Rightarrow> ('t \<Rightarrow> 'p) \<Rightarrow> ('p \<Rightarrow> string option) \<Rightarrow>
   node \<Rightarrow> ('f, 't) operation list \<Rightarrow> node" where
  "run_operations api_utils_get_prompt_content tensor_to_pil encode_image self ops =
     foldl (apply_operation api_utils_get_prompt_content tensor_to_pil encode_image) self ops"

section \<open>Lemmas on the handler and the loop\<close>

lemma except_clause_request:
  "valid_cursor self \<Longrightarrow>
   except_clause self (RequestException msg) =
     Inr (self\<lparr>current_key_index :=
                (if rate_limited msg then (current_key_index self + 1) mod length (api_keys self)
                 else current_key_index self)\<rparr>)"
  by (simp add: get_next_api_key_def valid_cursor_def Let_def)

lemma except_clause_other:
  "\<not> is_request_exception e \<Longrightarrow> except_clause self e = Inl e"
  by (cases e) simp_all

lemma except_clause_Inr:
  "except_clause self e = Inr self' \<Longrightarrow> valid_cursor self \<Longrightarrow>
   valid_cursor self' \<and> api_keys self' = api_keys self \<and>
   prompt_options self' = prompt_options self"
  by (cases e) (auto simp: get_next_api_key_def valid_cursor_def Let_def split: if_splits)

lemma retry_loop_exhausted:
  "valid_cursor self \<Longrightarrow> \<forall>j<n. attempt_caught (remote (k + j)) \<Longrightarrow>
   result (retry_loop remote data n k self sent) = Inr max_retries_result"
proof (induction n arbitrary: k self sent)
  case 0
  then show ?case by simp
next
  case (Suc n)
  from Suc.prems(2) have "attempt_caught (remote k)" by force
  then obtain msg where e: "try_body (remote k) = Inl (RequestException msg)"
    by (auto simp: attempt_caught_def split: sum.splits elim: is_request_exception.elims)
  let ?self' = "self\<lparr>current_key_index :=
                (if rate_limited msg then (current_key_index self + 1) mod length (api_keys self)
                 else current_key_index self)\<rparr>"
  have v: "valid_cursor ?self'" using Suc.prems(1) by (simp add: valid_cursor_def)
  have r: "\<forall>j<n. attempt_caught (remote (Suc k + j))" using Suc.prems(2) by force
  have "retry_loop remote data (Suc n) k self sent =
        retry_loop remote data n (Suc k) ?self' (sent @ [request_for self data])"
    using Suc.prems(1) e except_clause_request[OF Suc.prems(1), of msg]
    by (simp add: valid_cursor_def)
  then show ?case using Suc.IH[OF v r] by simp
qed

lemma retry_loop_returns:
  "\<forall>j<n. attempt_fails (remote (k + j)) \<Longrightarrow>
   result (retry_loop remote data n k self sent) = Inr r \<Longrightarrow> r = max_retries_result"
proof (induction n arbitrary: k self sent)
  case 0
  then show ?case by simp
next
  case (Suc n)
  from Suc.prems(1) have "attempt_fails (remote k)" by force
  then obtain e where e: "try_body (remote k) = Inl e"
    by (auto simp: attempt_fails_def split: sum.splits)
  have r: "\<forall>j<n. attempt_fails (remote (Suc k + j))" using Suc.prems(1) by force
  show ?case
  proof (cases "current_key_index self < length (api_keys self)")
    case False
    then show ?thesis using Suc.prems(2) by simp
  next
    case True
    show ?thesis
    proof (cases "except_clause self e")
      case (Inl e')
      then show ?thesis using Suc.prems(2) True e by simp
    next
      case (Inr self')
      then show ?thesis using Suc.prems(2) True e Suc.IH[OF r] by simp
    qed
  qed
qed

lemma refusing_remote_caught: "attempt_caught (refusing_remote k)"
  by (simp add: attempt_caught_def try_body_def refusing_remote_def)

lemma two_key_node_valid: "valid_cursor two_key_node"
  by (simp add: valid_cursor_def two_key_node_def)

lemma connection_refused_not_rate_limited: "\<not> rate_limited ''Connection refused''"
  by code_simp

lemma except_clause_keys:
  "except_clause self e = Inr self' \<Longrightarrow>
   api_keys self' = api_keys self \<and> prompt_options self' = prompt_options self"
  by (cases e) (auto simp: get_next_api_key_def Let_def split: if_splits)

lemma retry_loop_sent_prefix:
  "\<exists>more. requests_sent (retry_loop remote data n k self sent) = sent @ more"
proof (induction n arbitrary: k self sent)
  case 0
  then show ?case by simp
next
  case (Suc n)
  show ?case
  proof (cases "current_key_index self < length (api_keys self)")
    case False
    then show ?thesis by simp
  next
    case True
    show ?thesis
    proof (cases "try_body (remote k)")
      case (Inr r)
      then show ?thesis using True by simp
    next
      case (Inl e)
      show ?thesis
      proof (cases "except_clause self e")
        case (Inl e')
        then show ?thesis using True \<open>try_body (remote k) = Inl e\<close> by simp
      next
        case (Inr self')
        obtain more where
          "requests_sent (retry_loop remote data n (Suc k) self' (sent @ [request_for self data])) =
             (sent @ [request_for self data]) @ more"
          using Suc.IH by blast
        then show ?thesis using True Inr \<open>try_body (remote k) = Inl e\<close> by simp
      qed
    qed
  qed
qed

lemma retry_loop_sent_first:
  assumes "current_key_index self < length (api_keys self)"
  shows "\<exists>more. requests_sent (retry_loop remote data (Suc n) k self sent) =
           sent @ request_for self data # more"
proof (cases "try_body (remote k)")
  case (Inr r)
  then show ?thesis using assms by simp
next
  case (Inl e)
  show ?thesis
  proof (cases "except_clause self e")
    case (Inl e')
    then show ?thesis using assms \<open>try_body (remote k) = Inl e\<close> by simp
  next
    case (Inr self')
    obtain more where
      "requests_sent (retry_loop remote data n (Suc k) self' (sent @ [request_for self data])) =
         (sent @ [request_for self data]) @ more"
      using retry_loop_sent_prefix by blast
    then show ?thesis using assms Inr \<open>try_body (remote k) = Inl e\<close> by simp
  qed
qed

lemma retry_loop_step_caught:
  assumes "valid_cursor self" and "try_body (remote k) = Inl (RequestException msg)"
  shows "retry_loop remote data (Suc n) k self sent =
         retry_loop remote data n (Suc k)
           (self\<lparr>current_key_index :=
                   (if rate_limited msg
                    then (current_key_index self + 1) mod length (api_keys self)
                    else current_key_index self)\<rparr>)
           (sent @ [request_for self data])"
  using assms except_clause_request[OF assms(1), of msg]
  by (simp add: valid_cursor_def)

lemma retry_loop_step_escapes:
  assumes "valid_cursor self" and "try_body (remote k) = Inl e" and "\<not> is_request_exception e"
  shows "retry_loop remote data (Suc n) k self sent =
         \<lparr>result = Inl e, self_after = self, requests_sent = sent @ [request_for self data]\<rparr>"
  using assms except_clause_other[OF assms(3), of self]
  by (simp add: valid_cursor_def)

lemma retry_loop_step_success:
  assumes "valid_cursor self" and "try_body (remote k) = Inr r"
  shows "retry_loop remote data (Suc n) k self sent =
         \<lparr>result = Inr r, self_after = self, requests_sent = sent @ [request_for self data]\<rparr>"
  using assms by (simp add: valid_cursor_def)

section \<open>Exhausted retries\<close>

lemma refusing_remote_try:
  "try_body (refusing_remote k) = Inl (RequestException ''Connection refused'')"
  by (simp add: try_body_def refusing_remote_def)

lemma refused_then_empty_first:
  "try_body (refused_then_empty_remote 0) = Inl (RequestException ''Connection refused'')"
  by (simp add: try_body_def refused_then_empty_remote_def)

lemma refused_then_empty_second:
  "try_body (refused_then_empty_remote (Suc 0)) = Inl (KeyError (PyStr ''choices''))"
  by (simp add: try_body_def refused_then_empty_remote_def first_choice_content_def)

lemma sample_retries: "nat (max_retries sample_inputs) = Suc (Suc 0)"
  by (simp add: sample_inputs_def)

lemma refused_then_empty_run:
  "retry_loop refused_then_empty_remote data (Suc (Suc 0)) 0 two_key_node [] =
     \<lparr>result = Inl (KeyError (PyStr ''choices'')), self_after = two_key_node,
      requests_sent = [request_for two_key_node data, request_for two_key_node data]\<rparr>"
proof -
  have same: "two_key_node\<lparr>current_key_index :=
                 (if rate_limited ''Connection refused''
                  then (current_key_index two_key_node + 1) mod length (api_keys two_key_node)
                  else current_key_index two_key_node)\<rparr> = two_key_node"
    using connection_refused_not_rate_limited by simp
  have "retry_loop refused_then_empty_remote data (Suc (Suc 0)) 0 two_key_node [] =
        retry_loop refused_then_empty_remote data (Suc 0) (Suc 0) two_key_node
          ([] @ [request_for two_key_node data])"
    using retry_loop_step_caught[of two_key_node refused_then_empty_remote 0
        "''Connection refused''" data "Suc 0" "[]"]
      two_key_node_valid refused_then_empty_first
    unfolding same by blast
  also have "\<dots> = \<lparr>result = Inl (KeyError (PyStr ''choices'')), self_after = two_key_node,
      requests_sent = ([] @ [request_for two_key_node data]) @ [request_for two_key_node data]\<rparr>"
    using retry_loop_step_escapes[of two_key_node refused_then_empty_remote "Suc 0"
        "KeyError (PyStr ''choices'')" data 0 "[] @ [request_for two_key_node data]"]
      two_key_node_valid refused_then_empty_second
    by simp
  finally show ?thesis by simp
qed

text \<open>
  C1, as the claim states it, fails. With \<open>max_retries = 2\<close>, a first post that is refused
  and a second that comes back with status 200 and the empty JSON object, both attempts
  fail, and the call of the text node does not return the fixed triple: after its two posts
  the \<^verbatim>\<open>KeyError\<close> of \<^verbatim>\<open>response.json()['choices']\<close> leaves the method.
\<close>

theorem all_attempts_fail_yet_raises:
  "nat (max_retries sample_inputs) = 2 \<and>
   attempt_fails (refused_then_empty_remote 0) \<and>
   attempt_fails (refused_then_empty_remote 1) \<and>
   result (llm_process_completion_request get_prompt_content refused_then_empty_remote
             two_key_node sample_inputs) = Inl (KeyError (PyStr ''choices'')) \<and>
   result (llm_process_completion_request get_prompt_content refused_then_empty_remote
             two_key_node sample_inputs) \<noteq>
     Inr (PyStr ''Max retries reached. Unable to complete the request.'', False,
          PyStr ''429 Too Many Requests'') \<and>
   length (requests_sent (llm_process_completion_request get_prompt_content
             refused_then_empty_remote two_key_node sample_inputs)) = 2"
proof -
  have n: "nat (max_retries sample_inputs) = 2" by (simp add: sample_inputs_def)
  have f0: "attempt_fails (refused_then_empty_remote 0)"
    by (simp add: attempt_fails_def refused_then_empty_first)
  have f1: "attempt_fails (refused_then_empty_remote 1)"
    using refused_then_empty_second by (simp add: attempt_fails_def)
  have run: "llm_process_completion_request get_prompt_content refused_then_empty_remote
             two_key_node sample_inputs =
     \<lparr>result = Inl (KeyError (PyStr ''choices'')), self_after = two_key_node,
      requests_sent =
        [request_for two_key_node (llm_data get_prompt_content two_key_node sample_inputs),
         request_for two_key_node (llm_data get_prompt_content two_key_node sample_inputs)]\<rparr>"
    unfolding llm_process_completion_request_def sample_retries
    by (rule refused_then_empty_run)
  show ?thesis
    unfolding run using n f0 f1 by simp
qed

text \<open>
  C1, amended. On a node with a valid cursor, when every one of the \<open>max_retries\<close> attempts
  of \<^verbatim>\<open>process_completion_request\<close> fails with an exception of the \<^verbatim>\<open>RequestException\<close>
  hierarchy, the text node, and the vision node given a tensor, return exactly
  ("Max retries reached. Unable to complete the request.", false, "429 Too Many Requests"),
  rate-limit errors or not. When every attempt fails in whatever way, that triple is the
  only value the call can return.
\<close>

theorem max_retries_exhausted:
  assumes "valid_cursor self"
  shows "((\<forall>k < nat (max_retries args). attempt_caught (remote k)) \<longrightarrow>
            result (llm_process_completion_request api_utils_get_prompt_content remote self args) =
              Inr (PyStr ''Max retries reached. Unable to complete the request.'', False,
                   PyStr ''429 Too Many Requests'') \<and>
            result (vlm_process_completion_request tensor_to_pil encode_image remote self args
                      (Tensor tensor)) =
              Inr (PyStr ''Max retries reached. Unable to complete the request.'', False,
                   PyStr ''429 Too Many Requests'')) \<and>
         ((\<forall>k < nat (max_retries args). attempt_fails (remote k)) \<longrightarrow>
            (\<forall>r. result (llm_process_completion_request api_utils_get_prompt_content remote self
                            args) = Inr r \<or>
                  result (vlm_process_completion_request tensor_to_pil encode_image remote self
                            args (Tensor tensor)) = Inr r \<longrightarrow>
                  r = (PyStr ''Max retries reached. Unable to complete the request.'', False,
                       PyStr ''429 Too Many Requests'')))"
proof -
  let ?n = "nat (max_retries args)"
  let ?llm = "llm_data api_utils_get_prompt_content self args"
  let ?vlm = "vlm_data tensor_to_pil encode_image self args tensor"
  have l: "llm_process_completion_request api_utils_get_prompt_content remote self args =
           retry_loop remote ?llm ?n 0 self []"
    by (simp only: llm_process_completion_request_def)
  have v: "vlm_process_completion_request tensor_to_pil encode_image remote self args
             (Tensor tensor) = retry_loop remote ?vlm ?n 0 self []"
    by (simp only: vlm_process_completion_request_def image_argument.case)
  have m: "max_retries_result =
             (PyStr ''Max retries reached. Unable to complete the request.'', False,
              PyStr ''429 Too Many Requests'')"
    by (simp only: max_retries_result_def)
  have a: "result (retry_loop remote ?llm ?n 0 self []) = Inr max_retries_result"
    and b: "result (retry_loop remote ?vlm ?n 0 self []) = Inr max_retries_result"
    if "\<forall>k < ?n. attempt_caught (remote k)"
    using retry_loop_exhausted[OF assms, of ?n remote 0] that by simp_all
  have c: "r = max_retries_result"
    if "\<forall>k < ?n. attempt_fails (remote k)"
      and "result (retry_loop remote ?llm ?n 0 self []) = Inr r" for r
    using retry_loop_returns[of ?n remote 0 ?llm self "[]" r] that by simp
  have d: "r = max_retries_result"
    if "\<forall>k < ?n. attempt_fails (remote k)"
      and "result (retry_loop remote ?vlm ?n 0 self []) = Inr r" for r
    using retry_loop_returns[of ?n remote 0 ?vlm self "[]" r] that by simp
  show ?thesis
    unfolding l v m[symmetric] using a b c d by blast
qed

theorem max_retries_exhausted_witness:
  "valid_cursor two_key_node \<and>
   nat (max_retries sample_inputs) = 2 \<and>
   attempt_caught (refusing_remote 0) \<and> attempt_caught (refusing_remote 1) \<and>
   \<not> rate_limited ''Connection refused'' \<and>
   result (llm_process_completion_request get_prompt_content refusing_remote two_key_node
             sample_inputs) =
     Inr (PyStr ''Max retries reached. Unable to complete the request.'', False,
          PyStr ''429 Too Many Requests'') \<and>
   result (vlm_process_completion_request sample_tensor_to_pil sample_encode_image
             refusing_remote two_key_node sample_inputs (Tensor ''pixels'')) =
     Inr (PyStr ''Max retries reached. Unable to complete the request.'', False,
          PyStr ''429 Too Many Requests'')"
proof -
  have c: "\<forall>k < nat (max_retries sample_inputs). attempt_caught (refusing_remote k)"
    by (simp only: refusing_remote_caught simp_thms)
  have n: "nat (max_retries sample_inputs) = 2"
    by (simp add: sample_inputs_def)
  show ?thesis
    using max_retries_exhausted[OF two_key_node_valid, of sample_inputs refusing_remote
        get_prompt_content sample_tensor_to_pil sample_encode_image "''pixels''"]
      c n two_key_node_valid connection_refused_not_rate_limited
      refusing_remote_caught[of 0] refusing_remote_caught[of 1]
    by blast
qed

section \<open>Rotation of the credential on failure\<close>

lemma rate_limit_text_matches: "rate_limited ''Rate limit reached for model''"
  by code_simp

lemma rate_limiting_remote_try:
  "try_body (rate_limiting_remote k) = Inl (RequestException ''Rate limit reached for model'')"
  by (simp add: try_body_def rate_limiting_remote_def)



section \<open>Success on the first attempt\<close>

lemma try_body_success:
  "raise_for_status resp = None \<Longrightarrow> json_body resp = Inr body \<Longrightarrow>
   first_choice_content body = Inr content \<Longrightarrow>
   try_body (PostReturns resp) = Inr (content, True, PyInt (status_code resp))"
  by (simp add: try_body_def)

text \<open>
  C5. When the first post comes back, \<^verbatim>\<open>raise_for_status\<close> does not raise and the decoded
  body has a first choice with a message content, \<^verbatim>\<open>process_completion_request\<close> returns
  that content, true and the response's status code; it has posted exactly one request and
  the node, the cursor with it, is as it was.
\<close>

theorem first_attempt_success:
  assumes "valid_cursor self" and "0 < max_retries args"
    and "remote 0 = PostReturns resp" and "raise_for_status resp = None"
    and "json_body resp = Inr body" and "first_choice_content body = Inr content"
  shows "llm_process_completion_request api_utils_get_prompt_content remote self args =
           \<lparr>result = Inr (content, True, PyInt (status_code resp)), self_after = self,
            requests_sent =
              [request_for self (llm_data api_utils_get_prompt_content self args)]\<rparr> \<and>
         vlm_process_completion_request tensor_to_pil encode_image remote self args
             (Tensor tensor) =
           \<lparr>result = Inr (content, True, PyInt (status_code resp)), self_after = self,
            requests_sent =
              [request_for self (vlm_data tensor_to_pil encode_image self args tensor)]\<rparr>"
proof -
  obtain m where m: "nat (max_retries args) = Suc m"
    using assms(2) by (cases "nat (max_retries args)") auto
  have t: "try_body (remote 0) = Inr (content, True, PyInt (status_code resp))"
    using try_body_success[OF assms(4) assms(5) assms(6)] assms(3) by simp
  have "retry_loop remote data (Suc m) 0 self [] =
          \<lparr>result = Inr (content, True, PyInt (status_code resp)), self_after = self,
           requests_sent = [request_for self data]\<rparr>" for data :: "'a payload"
    using retry_loop_step_success[of self remote 0 _ data m "[]"] assms(1) t by simp
  then show ?thesis
    unfolding llm_process_completion_request_def vlm_process_completion_request_def m
    by (simp del: retry_loop.simps)
qed

lemma answering_remote_content:
  "first_choice_content
     (PyDict [(''choices'',
               PyList [PyDict [(''message'', PyDict [(''content'', PyStr ''Hi there'')])]])]) =
   Inr (PyStr ''Hi there'')"
  by (simp add: first_choice_content_def)

theorem first_attempt_success_witness:
  "valid_cursor two_key_node \<and> 0 < max_retries sample_inputs \<and>
   result (llm_process_completion_request get_prompt_content answering_remote two_key_node
             sample_inputs) = Inr (PyStr ''Hi there'', True, PyInt 200) \<and>
   self_after (llm_process_completion_request get_prompt_content answering_remote two_key_node
             sample_inputs) = two_key_node \<and>
   length (requests_sent (llm_process_completion_request get_prompt_content answering_remote
             two_key_node sample_inputs)) = 1 \<and>
   result (vlm_process_completion_request sample_tensor_to_pil sample_encode_image
             answering_remote two_key_node sample_inputs (Tensor ''pixels'')) =
     Inr (PyStr ''Hi there'', True, PyInt 200)"
proof -
  let ?resp = "\<lparr>status_code = 200, raise_for_status = None,
        json_body =
          Inr (PyDict
                 [(''choices'',
                   PyList [PyDict [(''message'', PyDict [(''content'', PyStr ''Hi there'')])]])])\<rparr>"
  have p: "0 < max_retries sample_inputs" by (simp add: sample_inputs_def)
  have r: "answering_remote 0 = PostReturns ?resp" by (simp add: answering_remote_def)
  have s: "raise_for_status ?resp = None" by simp
  have j: "json_body ?resp = Inr (PyDict
                 [(''choices'',
                   PyList [PyDict [(''message'', PyDict [(''content'', PyStr ''Hi there'')])]])])"
    by simp
  note th = first_attempt_success[where api_utils_get_prompt_content = get_prompt_content and
      tensor_to_pil = sample_tensor_to_pil and encode_image = sample_encode_image and
      tensor = "''pixels''" and remote = answering_remote and self = two_key_node and
      args = sample_inputs and resp = ?resp, OF two_key_node_valid p r s j
      answering_remote_content]
  have c: "status_code ?resp = 200" by simp
  show ?thesis
    using th two_key_node_valid p unfolding c by simp
qed

section \<open>The vision node without an image\<close>

text \<open>
  C7. When the \<^verbatim>\<open>image\<close> argument of the vision node is \<^verbatim>\<open>None\<close> or is not a tensor,
  \<^verbatim>\<open>process_completion_request\<close> returns exactly
  ("Image is required for VLM models.", false, "400 Bad Request"), posts no request and
  leaves the node as it was.
\<close>

theorem vlm_image_required:
  "vlm_process_completion_request tensor_to_pil encode_image remote self args ImageNone =
     \<lparr>result = Inr (PyStr ''Image is required for VLM models.'', False,
                     PyStr ''400 Bad Request''),
      self_after = self, requests_sent = []\<rparr> \<and>
   vlm_process_completion_request tensor_to_pil encode_image remote self args NotATensor =
     \<lparr>result = Inr (PyStr ''Image is required for VLM models.'', False,
                     PyStr ''400 Bad Request''),
      self_after = self, requests_sent = []\<rparr>"
  by (simp add: vlm_process_completion_request_def image_required_result_def)

section \<open>The requests of one call\<close>

lemma retry_loop_requests:
  "req \<in> set (requests_sent (retry_loop remote data n k self sent)) \<Longrightarrow>
   req \<in> set sent \<or>
   (url req = groq_url \<and> json req = data \<and>
    (\<exists>key \<in> set (api_keys self). authorization req = ''Bearer '' @ key))"
proof (induction n arbitrary: k self sent)
  case 0
  then show ?case by simp
next
  case (Suc n)
  show ?case
  proof (cases "current_key_index self < length (api_keys self)")
    case False
    then show ?thesis using Suc.prems by simp
  next
    case True
    have here: "url (request_for self data) = groq_url \<and> json (request_for self data) = data \<and>
      (\<exists>key \<in> set (api_keys self). authorization (request_for self data) = ''Bearer '' @ key)"
      using True by (auto simp: request_for_def)
    show ?thesis
    proof (cases "try_body (remote k)")
      case (Inr r)
      then show ?thesis using True Suc.prems here by auto
    next
      case (Inl e)
      show ?thesis
      proof (cases "except_clause self e")
        case (Inl e')
        then show ?thesis using True Suc.prems here \<open>try_body (remote k) = Inl e\<close> by auto
      next
        case (Inr self')
        have keys: "api_keys self' = api_keys self"
          using except_clause_keys[OF Inr] by simp
        have "req \<in> set (requests_sent
                (retry_loop remote data n (Suc k) self' (sent @ [request_for self data])))"
          using True Suc.prems Inr \<open>try_body (remote k) = Inl e\<close> by simp
        from Suc.IH[OF this] show ?thesis using here keys by auto
      qed
    qed
  qed
qed

lemma retry_loop_requests_length:
  "length (requests_sent (retry_loop remote data n k self sent)) \<le> length sent + n"
proof (induction n arbitrary: k self sent)
  case 0
  then show ?case by simp
next
  case (Suc n)
  have step: "length (requests_sent
                (retry_loop remote data n (Suc k) self' (sent @ [request_for self data]))) \<le>
              length sent + Suc n" for self'
    using Suc.IH[of "Suc k" self' "sent @ [request_for self data]"] by simp
  show ?case
    using step by (simp split: sum.splits)
qed

text \<open>
  C10. The dictionary \<^verbatim>\<open>data\<close> is built from the arguments before the loop, with the key
  \<^verbatim>\<open>stop\<close> present only for a non-empty stop string, and every request that one call of
  \<^verbatim>\<open>process_completion_request\<close> posts carries that same dictionary to the same address;
  its Authorization header is "Bearer " followed by one of the node's credentials. A call
  posts at most \<open>max_retries\<close> requests.
\<close>

theorem payload_fixed_across_attempts:
  "(\<forall>req \<in> set (requests_sent
       (llm_process_completion_request api_utils_get_prompt_content remote self args)).
      url req = groq_url \<and>
      json req = llm_data api_utils_get_prompt_content self args \<and>
      (\<exists>key \<in> set (api_keys self). authorization req = ''Bearer '' @ key)) \<and>
   (\<forall>req \<in> set (requests_sent
       (vlm_process_completion_request tensor_to_pil encode_image remote self args
          (Tensor tensor))).
      url req = groq_url \<and>
      json req = vlm_data tensor_to_pil encode_image self args tensor \<and>
      (\<exists>key \<in> set (api_keys self). authorization req = ''Bearer '' @ key)) \<and>
   length (requests_sent
       (llm_process_completion_request api_utils_get_prompt_content remote self args)) \<le>
     nat (max_retries args) \<and>
   length (requests_sent
       (vlm_process_completion_request tensor_to_pil encode_image remote self args
          (Tensor tensor))) \<le> nat (max_retries args) \<and>
   llm_data api_utils_get_prompt_content self args =
     \<lparr>data_model = model args,
      data_messages =
        llm_messages (llm_system_message api_utils_get_prompt_content self args)
          (user_input args),
      data_temperature = temperature args, data_max_tokens = max_tokens args,
      data_top_p = top_p args, data_seed = seed args,
      data_stop = (if stop args = [] then None else Some (stop args))\<rparr> \<and>
   vlm_data tensor_to_pil encode_image self args tensor =
     \<lparr>data_model = model args,
      data_messages =
        vlm_messages (vlm_system_message self args) (user_input args)
          (encode_image (tensor_to_pil tensor)),
      data_temperature = temperature args, data_max_tokens = max_tokens args,
      data_top_p = top_p args, data_seed = seed args,
      data_stop = (if stop args = [] then None else Some (stop args))\<rparr>"
proof -
  have a: "\<forall>req \<in> set (requests_sent (retry_loop remote data n 0 self [])).
      url req = groq_url \<and> json req = data \<and>
      (\<exists>key \<in> set (api_keys self). authorization req = ''Bearer '' @ key)"
    for data :: "'a payload" and n
    using retry_loop_requests[of _ remote data n 0 self "[]"] by auto
  have b: "length (requests_sent (retry_loop remote data n 0 self [])) \<le> n"
    for data :: "'a payload" and n
    using retry_loop_requests_length[of remote data n 0 self "[]"] by simp
  have c: "llm_process_completion_request api_utils_get_prompt_content remote self args =
      retry_loop remote (llm_data api_utils_get_prompt_content self args)
        (nat (max_retries args)) 0 self []"
    by (simp only: llm_process_completion_request_def)
  have d: "vlm_process_completion_request tensor_to_pil encode_image remote self args
          (Tensor tensor) =
      retry_loop remote (vlm_data tensor_to_pil encode_image self args tensor)
        (nat (max_retries args)) 0 self []"
    by (simp only: vlm_process_completion_request_def image_argument.case)
  have e: "llm_data api_utils_get_prompt_content self args =
     \<lparr>data_model = model args,
      data_messages =
        llm_messages (llm_system_message api_utils_get_prompt_content self args)
          (user_input args),
      data_temperature = temperature args, data_max_tokens = max_tokens args,
      data_top_p = top_p args, data_seed = seed args,
      data_stop = (if stop args = [] then None else Some (stop args))\<rparr>"
    by (simp add: llm_data_def build_data_def)
  have f: "vlm_data tensor_to_pil encode_image self args tensor =
     \<lparr>data_model = model args,
      data_messages =
        vlm_messages (vlm_system_message self args) (user_input args)
          (encode_image (tensor_to_pil tensor)),
      data_temperature = temperature args, data_max_tokens = max_tokens args,
      data_top_p = top_p args, data_seed = seed args,
      data_stop = (if stop args = [] then None else Some (stop args))\<rparr>"
    by (simp add: vlm_data_def build_data_def)
  show ?thesis
    unfolding c d using a b e f by blast
qed

lemma rate_limiting_run:
  "requests_sent (retry_loop rate_limiting_remote data (Suc (Suc 0)) 0 two_key_node []) =
     [\<lparr>url = groq_url, authorization = ''Bearer gsk_first'', json = data\<rparr>,
      \<lparr>url = groq_url, authorization = ''Bearer gsk_second'', json = data\<rparr>]"
  by (simp add: rate_limiting_remote_try rate_limit_text_matches get_next_api_key_def
      two_key_node_def request_for_def)

theorem payload_fixed_across_attempts_witness:
  "length (requests_sent (llm_process_completion_request get_prompt_content rate_limiting_remote
             two_key_node sample_inputs)) = 2 \<and>
   json (requests_sent (llm_process_completion_request get_prompt_content rate_limiting_remote
             two_key_node sample_inputs) ! 0) =
     llm_data get_prompt_content two_key_node sample_inputs \<and>
   json (requests_sent (llm_process_completion_request get_prompt_content rate_limiting_remote
             two_key_node sample_inputs) ! 1) =
     llm_data get_prompt_content two_key_node sample_inputs \<and>
   authorization (requests_sent (llm_process_completion_request get_prompt_content
             rate_limiting_remote two_key_node sample_inputs) ! 0) = ''Bearer gsk_first'' \<and>
   authorization (requests_sent (llm_process_completion_request get_prompt_content
             rate_limiting_remote two_key_node sample_inputs) ! 1) = ''Bearer gsk_second'' \<and>
   data_stop (llm_data get_prompt_content two_key_node sample_inputs) = None"
proof -
  let ?run = "llm_process_completion_request get_prompt_content rate_limiting_remote
             two_key_node sample_inputs"
  let ?data = "llm_data get_prompt_content two_key_node sample_inputs"
  have sent: "requests_sent ?run =
     [\<lparr>url = groq_url, authorization = ''Bearer gsk_first'', json = ?data\<rparr>,
      \<lparr>url = groq_url, authorization = ''Bearer gsk_second'', json = ?data\<rparr>]"
    unfolding llm_process_completion_request_def sample_retries by (rule rate_limiting_run)
  have len: "length (requests_sent ?run) = 2" unfolding sent by simp
  have m0: "requests_sent ?run ! 0 \<in> set (requests_sent ?run)"
    and m1: "requests_sent ?run ! 1 \<in> set (requests_sent ?run)"
    using len by simp_all
  note th = payload_fixed_across_attempts[where api_utils_get_prompt_content = get_prompt_content
      and remote = rate_limiting_remote and self = two_key_node and args = sample_inputs and
      tensor_to_pil = sample_tensor_to_pil and encode_image = sample_encode_image and
      tensor = "''pixels''"]
  have j0: "json (requests_sent ?run ! 0) = ?data" using th m0 by blast
  have j1: "json (requests_sent ?run ! 1) = ?data" using th m1 by blast
  have a0: "authorization (requests_sent ?run ! 0) = ''Bearer gsk_first''"
    and a1: "authorization (requests_sent ?run ! 1) = ''Bearer gsk_second''"
    unfolding sent by simp_all
  have st: "data_stop ?data = None"
    by (simp add: llm_data_def build_data_def sample_inputs_def)
  show ?thesis using len j0 j1 a0 a1 st by blast
qed

section \<open>The vision node with an image that does not encode\<close>

lemma retry_loop_result_shape:
  "result (retry_loop remote data n k self sent) = Inr r \<Longrightarrow>
   r = max_retries_result \<or> fst (snd r) = True"
proof (induction n arbitrary: k self sent)
  case 0
  then show ?case by simp
next
  case (Suc n)
  show ?case
  proof (cases "current_key_index self < length (api_keys self)")
    case False
    then show ?thesis using Suc.prems by simp
  next
    case True
    show ?thesis
    proof (cases "try_body (remote k)")
      case (Inr r')
      then have "fst (snd r') = True"
        by (auto simp: try_body_def split: http_outcome.splits option.splits sum.splits)
      then show ?thesis using True Suc.prems Inr by simp
    next
      case (Inl e)
      show ?thesis
      proof (cases "except_clause self e")
        case (Inl e')
        then show ?thesis using True Suc.prems \<open>try_body (remote k) = Inl e\<close> by simp
      next
        case (Inr self')
        then show ?thesis using True Suc.prems \<open>try_body (remote k) = Inl e\<close> Suc.IH by simp
      qed
    qed
  qed
qed

lemma vlm_messages_falsy: "\<not> truthy base64_image \<Longrightarrow> vlm_messages s u base64_image = PyList []"
  by (cases base64_image) (simp_all add: vlm_messages_def)

text \<open>
  C9. When the vision node is given a tensor whose base64 encoding is \<^verbatim>\<open>None\<close> or empty,
  \<^verbatim>\<open>process_completion_request\<close> does not return the result for a missing image: it runs
  the retry loop on a payload whose \<^verbatim>\<open>messages\<close> list is empty, and with \<open>max_retries\<close> at
  least 1 it posts at least one request, each with that empty list.
\<close>

theorem vlm_unencodable_image_still_posts:
  assumes "valid_cursor self" and "0 < max_retries args"
    and "\<not> truthy (encode_image (tensor_to_pil tensor))"
  shows "vlm_process_completion_request tensor_to_pil encode_image remote self args
             (Tensor tensor) =
           retry_loop remote (build_data args (PyList [])) (nat (max_retries args)) 0 self [] \<and>
         result (vlm_process_completion_request tensor_to_pil encode_image remote self args
             (Tensor tensor)) \<noteq>
           Inr (PyStr ''Image is required for VLM models.'', False, PyStr ''400 Bad Request'') \<and>
         requests_sent (vlm_process_completion_request tensor_to_pil encode_image remote self
             args (Tensor tensor)) \<noteq> [] \<and>
         (\<forall>req \<in> set (requests_sent (vlm_process_completion_request tensor_to_pil encode_image
             remote self args (Tensor tensor))). data_messages (json req) = PyList [])"
proof -
  let ?run = "vlm_process_completion_request tensor_to_pil encode_image remote self args
             (Tensor tensor)"
  let ?loop = "retry_loop remote (build_data args (PyList [])) (nat (max_retries args)) 0 self []"
  have data: "vlm_data tensor_to_pil encode_image self args tensor = build_data args (PyList [])"
    using assms(3) by (simp add: vlm_data_def vlm_messages_falsy)
  have run: "?run = ?loop"
    by (simp only: vlm_process_completion_request_def image_argument.case data)
  obtain m where m: "nat (max_retries args) = Suc m"
    using assms(2) by (cases "nat (max_retries args)") auto
  have cur: "current_key_index self < length (api_keys self)"
    using assms(1) by (simp add: valid_cursor_def)
  obtain more where "requests_sent ?loop = [] @ request_for self (build_data args (PyList [])) # more"
    unfolding m using retry_loop_sent_first[OF cur] by blast
  then have nonempty: "requests_sent ?loop \<noteq> []" by simp
  have msgs: "\<forall>req \<in> set (requests_sent ?loop). data_messages (json req) = PyList []"
  proof
    fix req assume "req \<in> set (requests_sent ?loop)"
    from retry_loop_requests[OF this] have "json req = build_data args (PyList [])" by simp
    then show "data_messages (json req) = PyList []" by (simp add: build_data_def)
  qed
  have shape: "result ?loop \<noteq>
      Inr (PyStr ''Image is required for VLM models.'', False, PyStr ''400 Bad Request'')"
  proof
    assume "result ?loop =
      Inr (PyStr ''Image is required for VLM models.'', False, PyStr ''400 Bad Request'')"
    from retry_loop_result_shape[OF this] show False
      by (simp add: max_retries_result_def)
  qed
  show ?thesis unfolding run using nonempty msgs shape by blast
qed

lemma answering_remote_try:
  "try_body (answering_remote k) = Inr (PyStr ''Hi there'', True, PyInt 200)"
  by (simp add: try_body_def answering_remote_def first_choice_content_def)

theorem vlm_unencodable_image_still_posts_witness:
  "valid_cursor two_key_node \<and> 0 < max_retries sample_inputs \<and>
   \<not> truthy (sample_encode_image (sample_tensor_to_pil [])) \<and>
   vlm_process_completion_request sample_tensor_to_pil sample_encode_image answering_remote
       two_key_node sample_inputs (Tensor []) =
     \<lparr>result = Inr (PyStr ''Hi there'', True, PyInt 200), self_after = two_key_node,
      requests_sent = [request_for two_key_node (build_data sample_inputs (PyList []))]\<rparr> \<and>
   data_messages (json (request_for two_key_node (build_data sample_inputs (PyList [])))) =
     PyList []"
proof -
  have p: "0 < max_retries sample_inputs" by (simp add: sample_inputs_def)
  have f: "\<not> truthy (sample_encode_image (sample_tensor_to_pil []))"
    by (simp add: truthy_def sample_encode_image_def sample_tensor_to_pil_def)
  note th = vlm_unencodable_image_still_posts[where self = two_key_node and
      args = sample_inputs and encode_image = sample_encode_image and
      tensor_to_pil = sample_tensor_to_pil and tensor = "[]" and remote = answering_remote,
      OF two_key_node_valid p f]
  have run: "vlm_process_completion_request sample_tensor_to_pil sample_encode_image
       answering_remote two_key_node sample_inputs (Tensor []) =
     retry_loop answering_remote (build_data sample_inputs (PyList []))
       (Suc (Suc 0)) 0 two_key_node []"
    using th unfolding sample_retries by blast
  have loop: "retry_loop answering_remote (build_data sample_inputs (PyList []))
       (Suc (Suc 0)) 0 two_key_node [] =
     \<lparr>result = Inr (PyStr ''Hi there'', True, PyInt 200), self_after = two_key_node,
      requests_sent = [] @ [request_for two_key_node (build_data sample_inputs (PyList []))]\<rparr>"
    using retry_loop_step_success[of two_key_node answering_remote 0 _
        "build_data sample_inputs (PyList [])" "Suc 0" "[]"]
      two_key_node_valid answering_remote_try
    by blast
  have m: "data_messages (json (request_for two_key_node (build_data sample_inputs (PyList [])))) =
     PyList []"
    by (simp add: request_for_def build_data_def)
  show ?thesis
    unfolding run loop using two_key_node_valid p f m by simp
qed

section \<open>Exceptions that leave the method\<close>

lemma attempt_caught_try:
  "attempt_caught outcome \<Longrightarrow> \<exists>msg. try_body outcome = Inl (RequestException msg)"
  by (auto simp: attempt_caught_def split: sum.splits elim: is_request_exception.elims)

lemma caught_cursor_valid:
  "valid_cursor self \<Longrightarrow>
   valid_cursor (self\<lparr>current_key_index :=
                   (if rate_limited msg
                    then (current_key_index self + 1) mod length (api_keys self)
                    else current_key_index self)\<rparr>)"
  by (simp add: valid_cursor_def)

lemma retry_loop_returns_tuple:
  "valid_cursor self \<Longrightarrow> \<forall>j<n. \<not> attempt_escapes (remote (k + j)) \<Longrightarrow>
   \<exists>r. result (retry_loop remote data n k self sent) = Inr r"
proof (induction n arbitrary: k self sent)
  case 0
  have "result (retry_loop remote data 0 k self sent) = Inr max_retries_result" by simp
  then show ?case by (rule exI)
next
  case (Suc n)
  have rest: "\<forall>j<n. \<not> attempt_escapes (remote (Suc k + j))" using Suc.prems(2) by force
  have here: "\<not> attempt_escapes (remote k)" using Suc.prems(2) by force
  show ?case
  proof (cases "try_body (remote k)")
    case (Inr r)
    have "retry_loop remote data (Suc n) k self sent =
         \<lparr>result = Inr r, self_after = self, requests_sent = sent @ [request_for self data]\<rparr>"
      using retry_loop_step_success[of self remote k r data n sent] Suc.prems(1) Inr by blast
    then have "result (retry_loop remote data (Suc n) k self sent) = Inr r" by simp
    then show ?thesis by (rule exI)
  next
    case (Inl e)
    then have "is_request_exception e" using here by (simp add: attempt_escapes_def)
    then obtain msg where e: "e = RequestException msg" by (cases e) simp_all
    let ?self' = "self\<lparr>current_key_index :=
                   (if rate_limited msg
                    then (current_key_index self + 1) mod length (api_keys self)
                    else current_key_index self)\<rparr>"
    have step: "retry_loop remote data (Suc n) k self sent =
         retry_loop remote data n (Suc k) ?self' (sent @ [request_for self data])"
      using retry_loop_step_caught[of self remote k msg data n sent] Suc.prems(1) Inl e
      by blast
    show ?thesis
      unfolding step by (rule Suc.IH[OF caught_cursor_valid[OF Suc.prems(1)] rest])
  qed
qed

lemma retry_loop_escapes:
  "valid_cursor self \<Longrightarrow> i < n \<Longrightarrow> \<forall>j<i. attempt_caught (remote (k + j)) \<Longrightarrow>
   try_body (remote (k + i)) = Inl e \<Longrightarrow> \<not> is_request_exception e \<Longrightarrow>
   result (retry_loop remote data n k self sent) = Inl e"
proof (induction n arbitrary: i k self sent)
  case 0
  then show ?case by simp
next
  case (Suc n)
  show ?case
  proof (cases i)
    case 0
    then show ?thesis
      using retry_loop_step_escapes[of self remote k e data n sent] Suc.prems by simp
  next
    case (Suc i')
    have "attempt_caught (remote k)" using Suc.prems(3) Suc by force
    then obtain msg where m: "try_body (remote k) = Inl (RequestException msg)"
      using attempt_caught_try by blast
    have rest: "\<forall>j<i'. attempt_caught (remote (Suc k + j))" using Suc.prems(3) Suc by force
    have lt: "i' < n" using Suc.prems(2) Suc by simp
    have at: "try_body (remote (Suc k + i')) = Inl e" using Suc.prems(4) Suc by simp
    show ?thesis
      using retry_loop_step_caught[of self remote k msg data n sent] Suc.prems(1) m
        Suc.IH[OF caught_cursor_valid[OF Suc.prems(1)] lt rest at Suc.prems(5)]
      by simp
  qed
qed

text \<open>
  C3, as the claim states it, fails: a response with status 200 whose body is the empty JSON
  object makes \<^verbatim>\<open>response.json()['choices']\<close> raise \<^verbatim>\<open>KeyError\<close>, which is not a
  \<^verbatim>\<open>RequestException\<close>, and the exception leaves \<^verbatim>\<open>process_completion_request\<close>.
\<close>

theorem unexpected_body_raises:
  "result (llm_process_completion_request get_prompt_content empty_object_remote two_key_node
             sample_inputs) = Inl (KeyError (PyStr ''choices'')) \<and>
   result (vlm_process_completion_request sample_tensor_to_pil sample_encode_image
             empty_object_remote two_key_node sample_inputs (Tensor ''pixels'')) =
     Inl (KeyError (PyStr ''choices''))"
proof -
  have t: "try_body (empty_object_remote 0) = Inl (KeyError (PyStr ''choices''))"
    by (simp add: try_body_def empty_object_remote_def first_choice_content_def)
  have "result (retry_loop empty_object_remote data (Suc (Suc 0)) 0 two_key_node []) =
          Inl (KeyError (PyStr ''choices''))" for data :: "string payload"
    using retry_loop_step_escapes[of two_key_node empty_object_remote 0
        "KeyError (PyStr ''choices'')" data "Suc 0" "[]"] two_key_node_valid t
    by simp
  then show ?thesis
    unfolding llm_process_completion_request_def vlm_process_completion_request_def
      sample_retries
    by (simp del: retry_loop.simps)
qed

text \<open>
  C3, amended. On a node with a valid cursor, \<^verbatim>\<open>process_completion_request\<close> returns a
  (text, success, status_code) tuple whenever no attempt raises an exception outside the
  \<^verbatim>\<open>RequestException\<close> hierarchy, and on the missing-image path of the vision node. The
  first attempt that raises an exception of another class, such as the \<^verbatim>\<open>KeyError\<close>,
  \<^verbatim>\<open>IndexError\<close> or \<^verbatim>\<open>TypeError\<close> of a body without \<^verbatim>\<open>choices[0].message.content\<close>, ends
  the call with that exception raised to the caller.
\<close>

theorem returns_tuple_unless_uncaught:
  assumes "valid_cursor self"
  shows "((\<forall>k < nat (max_retries args). \<not> attempt_escapes (remote k)) \<longrightarrow>
            (\<exists>r. result (llm_process_completion_request api_utils_get_prompt_content remote self
                            args) = Inr r) \<and>
            (\<exists>r. result (vlm_process_completion_request tensor_to_pil encode_image remote self
                            args image_arg) = Inr r)) \<and>
         (\<forall>i e. i < nat (max_retries args) \<and> (\<forall>j<i. attempt_caught (remote j)) \<and>
                 try_body (remote i) = Inl e \<and> \<not> is_request_exception e \<longrightarrow>
            result (llm_process_completion_request api_utils_get_prompt_content remote self
                      args) = Inl e \<and>
            result (vlm_process_completion_request tensor_to_pil encode_image remote self args
                      (Tensor tensor)) = Inl e)"
proof (intro conjI allI impI)
  assume a: "\<forall>k < nat (max_retries args). \<not> attempt_escapes (remote k)"
  have loop: "\<exists>r. result (retry_loop remote data (nat (max_retries args)) 0 self []) = Inr r"
    for data :: "'a payload"
    using retry_loop_returns_tuple[OF assms, of "nat (max_retries args)" remote 0 data "[]"] a
    by simp
  show "\<exists>r. result (llm_process_completion_request api_utils_get_prompt_content remote self
                            args) = Inr r"
    unfolding llm_process_completion_request_def by (rule loop)
  show "\<exists>r. result (vlm_process_completion_request tensor_to_pil encode_image remote self
                            args image_arg) = Inr r"
  proof (cases image_arg)
    case (Tensor t)
    then show ?thesis
      unfolding vlm_process_completion_request_def using loop by (simp del: retry_loop.simps)
  next
    case ImageNone
    then have "result (vlm_process_completion_request tensor_to_pil encode_image remote self
                  args image_arg) = Inr image_required_result"
      by (simp add: vlm_process_completion_request_def)
    then show ?thesis by (rule exI)
  next
    case NotATensor
    then have "result (vlm_process_completion_request tensor_to_pil encode_image remote self
                  args image_arg) = Inr image_required_result"
      by (simp add: vlm_process_completion_request_def)
    then show ?thesis by (rule exI)
  qed
next
  fix i e
  assume b: "i < nat (max_retries args) \<and> (\<forall>j<i. attempt_caught (remote j)) \<and>
                 try_body (remote i) = Inl e \<and> \<not> is_request_exception e"
  have loop: "result (retry_loop remote data (nat (max_retries args)) 0 self []) = Inl e"
    for data :: "'a payload"
    using retry_loop_escapes[of self i "nat (max_retries args)" remote 0 e data "[]"] assms b
    by simp
  show "result (llm_process_completion_request api_utils_get_prompt_content remote self
                      args) = Inl e"
    unfolding llm_process_completion_request_def by (rule loop)
  show "result (vlm_process_completion_request tensor_to_pil encode_image remote self args
                      (Tensor tensor)) = Inl e"
    unfolding vlm_process_completion_request_def using loop by (simp del: retry_loop.simps)
qed

lemma empty_object_remote_try:
  "try_body (empty_object_remote k) = Inl (KeyError (PyStr ''choices''))"
  by (simp add: try_body_def empty_object_remote_def first_choice_content_def)

lemma refusing_remote_stays: "\<not> attempt_escapes (refusing_remote k)"
  by (simp add: attempt_escapes_def refusing_remote_try)

theorem returns_tuple_unless_uncaught_witness:
  "valid_cursor two_key_node \<and>
   \<not> attempt_escapes (refusing_remote 0) \<and> \<not> attempt_escapes (refusing_remote 1) \<and>
   (\<exists>r. result (llm_process_completion_request get_prompt_content refusing_remote two_key_node
                   sample_inputs) = Inr r) \<and>
   try_body (empty_object_remote 0) = Inl (KeyError (PyStr ''choices'')) \<and>
   \<not> is_request_exception (KeyError (PyStr ''choices'')) \<and>
   result (vlm_process_completion_request sample_tensor_to_pil sample_encode_image
             empty_object_remote two_key_node sample_inputs (Tensor ''pixels'')) =
     Inl (KeyError (PyStr ''choices''))"
proof -
  have stays: "\<forall>k < nat (max_retries sample_inputs). \<not> attempt_escapes (refusing_remote k)"
    by (simp only: refusing_remote_stays simp_thms)
  have a: "\<exists>r. result (llm_process_completion_request get_prompt_content refusing_remote
                   two_key_node sample_inputs) = Inr r"
    using returns_tuple_unless_uncaught[where self = two_key_node and args = sample_inputs and
        remote = refusing_remote and api_utils_get_prompt_content = get_prompt_content and
        tensor_to_pil = sample_tensor_to_pil and encode_image = sample_encode_image and
        image_arg = "Tensor ''pixels''" and tensor = "''pixels''", OF two_key_node_valid]
      stays
    by blast
  have first: "(0::nat) < nat (max_retries sample_inputs)" by (simp add: sample_inputs_def)
  have none: "\<forall>j<(0::nat). attempt_caught (empty_object_remote j)" by simp
  have n: "\<not> is_request_exception (KeyError (PyStr ''choices''))" by simp
  have b: "result (vlm_process_completion_request sample_tensor_to_pil sample_encode_image
             empty_object_remote two_key_node sample_inputs (Tensor ''pixels'')) =
     Inl (KeyError (PyStr ''choices''))"
    using returns_tuple_unless_uncaught[where self = two_key_node and args = sample_inputs and
        remote = empty_object_remote and api_utils_get_prompt_content = get_prompt_content and
        tensor_to_pil = sample_tensor_to_pil and encode_image = sample_encode_image and
        image_arg = "Tensor ''pixels''" and tensor = "''pixels''", OF two_key_node_valid]
      first none n empty_object_remote_try[of 0]
    by blast
  show ?thesis
    using a b two_key_node_valid refusing_remote_stays[of 0] refusing_remote_stays[of 1] n
      empty_object_remote_try[of 0]
    by blast
qed

section \<open>The type of the status code\<close>

text \<open>
  C4 does not hold of the code: on the success path the third component is
  \<^verbatim>\<open>response.status_code\<close>, an integer, while \<^verbatim>\<open>RETURN_TYPES\<close> declares a string and
  both failure paths return one. With a first response of status 200 whose body holds the
  content "Hi there", the text node returns ("Hi there", true, 200), which does not match
  the declared types; the two failure results do.
\<close>

theorem success_status_code_is_an_integer:
  "result (llm_process_completion_request get_prompt_content answering_remote two_key_node
             sample_inputs) = Inr (PyStr ''Hi there'', True, PyInt 200) \<and>
   result (vlm_process_completion_request sample_tensor_to_pil sample_encode_image
             answering_remote two_key_node sample_inputs (Tensor ''pixels'')) =
     Inr (PyStr ''Hi there'', True, PyInt 200) \<and>
   \<not> has_type ''STRING'' (PyInt 200) \<and>
   \<not> matches_return_types (PyStr ''Hi there'', True, PyInt 200) \<and>
   matches_return_types max_retries_result \<and>
   matches_return_types image_required_result"
proof -
  have "result (retry_loop answering_remote data (Suc (Suc 0)) 0 two_key_node []) =
          Inr (PyStr ''Hi there'', True, PyInt 200)" for data :: "string payload"
    using retry_loop_step_success[of two_key_node answering_remote 0
        "(PyStr ''Hi there'', True, PyInt 200)" data "Suc 0" "[]"]
      two_key_node_valid answering_remote_try
    by simp
  then have run: "result (llm_process_completion_request get_prompt_content answering_remote
             two_key_node sample_inputs) = Inr (PyStr ''Hi there'', True, PyInt 200)"
    "result (vlm_process_completion_request sample_tensor_to_pil sample_encode_image
             answering_remote two_key_node sample_inputs (Tensor ''pixels'')) =
     Inr (PyStr ''Hi there'', True, PyInt 200)"
    unfolding llm_process_completion_request_def vlm_process_completion_request_def
      sample_retries
    by (simp_all del: retry_loop.simps)
  have t: "\<not> has_type ''STRING'' (PyInt 200)" by (simp add: has_type_def)
  have m: "\<not> matches_return_types (PyStr ''Hi there'', True, PyInt 200)"
    by (simp add: matches_return_types_def RETURN_TYPES_def has_type_def)
  have f: "matches_return_types max_retries_result"
    "matches_return_types image_required_result"
    by (simp_all add: matches_return_types_def RETURN_TYPES_def has_type_def
        max_retries_result_def image_required_result_def)
  show ?thesis using run t m f by blast
qed

section \<open>Preset resolution\<close>

text \<open>
  C6. When the preset name is the sentinel \<^verbatim>\<open>DEFAULT_PROMPT\<close>, both nodes use the caller's
  system message as it is, whatever the mapping holds. Otherwise the vision node uses the
  mapping's value for the name, or the empty string when the name is absent, and the text
  node uses what the \<^verbatim>\<open>get_prompt_content\<close> it imports returns for the mapping and the
  name, which is the same string when that function is the vision node's.
\<close>

theorem preset_resolution:
  "(preset args = DEFAULT_PROMPT \<longrightarrow>
      vlm_system_message self args = system_message args \<and>
      llm_system_message api_utils_get_prompt_content self args = system_message args) \<and>
   (preset args \<noteq> DEFAULT_PROMPT \<longrightarrow>
      (\<forall>v. prompt_options self (preset args) = Some v \<longrightarrow> vlm_system_message self args = v) \<and>
      (prompt_options self (preset args) = None \<longrightarrow> vlm_system_message self args = []) \<and>
      llm_system_message api_utils_get_prompt_content self args =
        api_utils_get_prompt_content (prompt_options self) (preset args)) \<and>
   llm_system_message get_prompt_content self args = vlm_system_message self args"
  by (simp add: vlm_system_message_def llm_system_message_def get_prompt_content_def)

theorem preset_resolution_witness:
  "preset sample_inputs = DEFAULT_PROMPT \<and>
   vlm_system_message two_key_node sample_inputs = ''Be brief.'' \<and>
   llm_system_message get_prompt_content two_key_node sample_inputs = ''Be brief.'' \<and>
   ''Poet'' \<noteq> DEFAULT_PROMPT \<and> prompt_options two_key_node ''Poet'' = Some ''Answer in verse.'' \<and>
   vlm_system_message two_key_node (sample_inputs\<lparr>preset := ''Poet''\<rparr>) = ''Answer in verse.'' \<and>
   llm_system_message get_prompt_content two_key_node (sample_inputs\<lparr>preset := ''Poet''\<rparr>) =
     ''Answer in verse.'' \<and>
   ''Critic'' \<noteq> DEFAULT_PROMPT \<and> prompt_options two_key_node ''Critic'' = None \<and>
   vlm_system_message two_key_node (sample_inputs\<lparr>preset := ''Critic''\<rparr>) = [] \<and>
   llm_system_message get_prompt_content two_key_node (sample_inputs\<lparr>preset := ''Critic''\<rparr>) = []"
proof -
  have d: "preset sample_inputs = DEFAULT_PROMPT" by (simp add: sample_inputs_def)
  have s: "system_message sample_inputs = ''Be brief.''" by (simp add: sample_inputs_def)
  have p: "preset (sample_inputs\<lparr>preset := ''Poet''\<rparr>) \<noteq> DEFAULT_PROMPT"
    and c: "preset (sample_inputs\<lparr>preset := ''Critic''\<rparr>) \<noteq> DEFAULT_PROMPT"
    by (simp_all add: DEFAULT_PROMPT_def)
  have po: "prompt_options two_key_node (preset (sample_inputs\<lparr>preset := ''Poet''\<rparr>)) =
              Some ''Answer in verse.''"
    and co: "prompt_options two_key_node (preset (sample_inputs\<lparr>preset := ''Critic''\<rparr>)) = None"
    by (simp_all add: two_key_node_def)
  note a = preset_resolution[where args = sample_inputs and self = two_key_node and
      api_utils_get_prompt_content = get_prompt_content]
  note b = preset_resolution[where args = "sample_inputs\<lparr>preset := ''Poet''\<rparr>" and
      self = two_key_node and api_utils_get_prompt_content = get_prompt_content]
  note e = preset_resolution[where args = "sample_inputs\<lparr>preset := ''Critic''\<rparr>" and
      self = two_key_node and api_utils_get_prompt_content = get_prompt_content]
  have a1: "vlm_system_message two_key_node sample_inputs = ''Be brief.''"
    and a2: "llm_system_message get_prompt_content two_key_node sample_inputs = ''Be brief.''"
    using a d s by simp_all
  have b1: "vlm_system_message two_key_node (sample_inputs\<lparr>preset := ''Poet''\<rparr>) =
              ''Answer in verse.''"
    using b p po by blast
  have b2: "llm_system_message get_prompt_content two_key_node
              (sample_inputs\<lparr>preset := ''Poet''\<rparr>) = ''Answer in verse.''"
    using b b1 by simp
  have e1: "vlm_system_message two_key_node (sample_inputs\<lparr>preset := ''Critic''\<rparr>) = []"
    using e c co by blast
  have e2: "llm_system_message get_prompt_content two_key_node
              (sample_inputs\<lparr>preset := ''Critic''\<rparr>) = []"
    using e e1 by simp
  show ?thesis
    using d a1 a2 b1 b2 e1 e2 p c po co by simp
qed

section \<open>The invariant of the credential pool\<close>

lemma split_on_nonempty: "split_on sep s \<noteq> []"
  by (induction s) (simp_all split: list.splits)

lemma load_api_keys_nonempty: "load_api_keys paths = Inr keys \<Longrightarrow> keys \<noteq> []"
  by (induction paths rule: load_api_keys.induct) (auto simp: split_on_nonempty)

lemma load_api_keys_default:
  "set paths \<subseteq> {Missing, NoApiKeysSection} \<Longrightarrow> load_api_keys paths = Inr [''default_api_key'']"
  by (induction paths rule: load_api_keys.induct) auto

lemma retry_loop_valid:
  "valid_cursor self \<Longrightarrow>
   valid_cursor (self_after (retry_loop remote data n k self sent)) \<and>
   api_keys (self_after (retry_loop remote data n k self sent)) = api_keys self"
proof (induction n arbitrary: k self sent)
  case 0
  then show ?case by simp
next
  case (Suc n)
  have cur: "current_key_index self < length (api_keys self)"
    using Suc.prems by (simp add: valid_cursor_def)
  show ?case
  proof (cases "try_body (remote k)")
    case (Inr r)
    then show ?thesis using cur Suc.prems by simp
  next
    case (Inl e)
    show ?thesis
    proof (cases "except_clause self e")
      case (Inl e')
      then show ?thesis using cur Suc.prems \<open>try_body (remote k) = Inl e\<close> by simp
    next
      case (Inr self')
      have v: "valid_cursor self'" and keys: "api_keys self' = api_keys self"
        using except_clause_Inr[OF Inr Suc.prems] by simp_all
      show ?thesis
        using cur Inr \<open>try_body (remote k) = Inl e\<close>
          Suc.IH[OF v, of "Suc k" "sent @ [request_for self data]"] keys
        by simp
    qed
  qed
qed

lemma apply_operation_valid:
  assumes "valid_cursor self"
  shows "valid_cursor (apply_operation g t c self operation) \<and>
         api_keys (apply_operation g t c self operation) = api_keys self"
proof (cases operation)
  case Rotate
  then show ?thesis
    using assms by (simp add: get_next_api_key_def valid_cursor_def Let_def)
next
  case (DispatchLLM remote args)
  then show ?thesis
    using retry_loop_valid[OF assms] by (simp add: llm_process_completion_request_def)
next
  case (DispatchVLM remote args image_arg)
  then show ?thesis
    using retry_loop_valid[OF assms] assms
    by (cases image_arg) (simp_all add: vlm_process_completion_request_def del: retry_loop.simps)
qed

lemma run_operations_valid:
  "valid_cursor self \<Longrightarrow>
   valid_cursor (run_operations g t c self ops) \<and>
   api_keys (run_operations g t c self ops) = api_keys self"
proof (induction ops arbitrary: self)
  case Nil
  then show ?case by (simp add: run_operations_def)
next
  case (Cons operation ops)
  have step: "valid_cursor (apply_operation g t c self operation)"
    and keys: "api_keys (apply_operation g t c self operation) = api_keys self"
    using apply_operation_valid[OF Cons.prems, of g t c operation] by simp_all
  show ?case
    using Cons.IH[OF step] keys by (simp add: run_operations_def)
qed

text \<open>
  C8. A node that \<^verbatim>\<open>__init__\<close> constructs has a non-empty credential pool and a cursor
  that is a valid index into it; with no configuration file, or none with an
  \<^verbatim>\<open>API_KEYS\<close> section, the pool is the single placeholder key. Every sequence of
  rotations and of dispatches by either node keeps the pool as it is and the cursor valid,
  and with a pool of one key the cursor never changes.
\<close>

theorem credential_cursor_invariant:
  "(init config_paths loaded_prompts = Inr new_node \<longrightarrow>
      api_keys new_node \<noteq> [] \<and> current_key_index new_node < length (api_keys new_node)) \<and>
   (set config_paths \<subseteq> {Missing, NoApiKeysSection} \<longrightarrow>
      init config_paths loaded_prompts =
        Inr \<lparr>api_keys = [''default_api_key''], current_key_index = 0,
             prompt_options = loaded_prompts\<rparr>) \<and>
   (valid_cursor self \<longrightarrow>
      api_keys (run_operations api_utils_get_prompt_content tensor_to_pil encode_image self ops)
        \<noteq> [] \<and>
      current_key_index
          (run_operations api_utils_get_prompt_content tensor_to_pil encode_image self ops) <
        length (api_keys
          (run_operations api_utils_get_prompt_content tensor_to_pil encode_image self ops)) \<and>
      api_keys (run_operations api_utils_get_prompt_content tensor_to_pil encode_image self ops) =
        api_keys self) \<and>
   (valid_cursor self \<and> length (api_keys self) = 1 \<longrightarrow>
      current_key_index
          (run_operations api_utils_get_prompt_content tensor_to_pil encode_image self ops) =
        current_key_index self)"
proof (intro conjI impI)
  assume "init config_paths loaded_prompts = Inr new_node"
  then obtain keys where k: "load_api_keys config_paths = Inr keys"
    and n: "new_node = \<lparr>api_keys = keys, current_key_index = 0, prompt_options = loaded_prompts\<rparr>"
    by (auto simp: init_def split: sum.splits)
  have ne: "keys \<noteq> []" using load_api_keys_nonempty[OF k] .
  show "api_keys new_node \<noteq> []" using n ne by simp
  show "current_key_index new_node < length (api_keys new_node)" using n ne by simp
next
  assume "set config_paths \<subseteq> {Missing, NoApiKeysSection}"
  then show "init config_paths loaded_prompts =
        Inr \<lparr>api_keys = [''default_api_key''], current_key_index = 0,
             prompt_options = loaded_prompts\<rparr>"
    using load_api_keys_default[of config_paths] by (simp add: init_def)
next
  let ?after = "run_operations api_utils_get_prompt_content tensor_to_pil encode_image self ops"
  assume v: "valid_cursor self"
  have a: "valid_cursor ?after" and b: "api_keys ?after = api_keys self"
    using run_operations_valid[OF v, of api_utils_get_prompt_content tensor_to_pil encode_image
        ops]
    by simp_all
  show "api_keys ?after \<noteq> []" using a by (simp add: valid_cursor_def)
  show "current_key_index ?after < length (api_keys ?after)" using a by (simp add: valid_cursor_def)
  show "api_keys ?after = api_keys self" by (rule b)
next
  let ?after = "run_operations api_utils_get_prompt_content tensor_to_pil encode_image self ops"
  assume h: "valid_cursor self \<and> length (api_keys self) = 1"
  then have v: "valid_cursor self" by simp
  have a: "valid_cursor ?after" and b: "api_keys ?after = api_keys self"
    using run_operations_valid[OF v, of api_utils_get_prompt_content tensor_to_pil encode_image
        ops]
    by simp_all
  have "current_key_index ?after < 1" using a b h by (simp add: valid_cursor_def)
  moreover have "current_key_index self < 1" using h by (simp add: valid_cursor_def)
  ultimately show "current_key_index ?after = current_key_index self" by simp
qed

lemma init_from_config:
  "init [Missing, ApiKeys (Inr ''gsk_a, gsk_b '')] Map.empty =
     Inr \<lparr>api_keys = [''gsk_a'', ''gsk_b''], current_key_index = 0, prompt_options = Map.empty\<rparr>"
  by (simp add: init_def strip_def whitespace_def)

theorem credential_cursor_invariant_witness:
  "init [Missing, ApiKeys (Inr ''gsk_a, gsk_b '')] Map.empty =
     Inr \<lparr>api_keys = [''gsk_a'', ''gsk_b''], current_key_index = 0, prompt_options = Map.empty\<rparr> \<and>
   api_keys \<lparr>api_keys = [''gsk_a'', ''gsk_b''], current_key_index = 0,
             prompt_options = Map.empty\<rparr> \<noteq> [] \<and>
   init [Missing, NoApiKeysSection] Map.empty =
     Inr \<lparr>api_keys = [''default_api_key''], current_key_index = 0, prompt_options = Map.empty\<rparr> \<and>
   valid_cursor two_key_node \<and>
   api_keys (run_operations get_prompt_content sample_tensor_to_pil sample_encode_image
      two_key_node
      [Rotate, DispatchLLM rate_limiting_remote sample_inputs,
       DispatchVLM refusing_remote sample_inputs (Tensor ''pixels''), Rotate]) =
     [''gsk_first'', ''gsk_second''] \<and>
   current_key_index (run_operations get_prompt_content sample_tensor_to_pil sample_encode_image
      two_key_node
      [Rotate, DispatchLLM rate_limiting_remote sample_inputs,
       DispatchVLM refusing_remote sample_inputs (Tensor ''pixels''), Rotate]) < 2 \<and>
   current_key_index (run_operations get_prompt_content sample_tensor_to_pil sample_encode_image
      \<lparr>api_keys = [''default_api_key''], current_key_index = 0, prompt_options = Map.empty\<rparr>
      [Rotate, DispatchLLM rate_limiting_remote sample_inputs, Rotate]) = 0"
proof -
  let ?configured = "\<lparr>api_keys = [''gsk_a'', ''gsk_b''], current_key_index = 0,
             prompt_options = Map.empty\<rparr>"
  let ?default = "\<lparr>api_keys = [''default_api_key''], current_key_index = 0,
             prompt_options = Map.empty\<rparr>"
  let ?ops = "[Rotate, DispatchLLM rate_limiting_remote sample_inputs,
       DispatchVLM refusing_remote sample_inputs (Tensor ''pixels''), Rotate]"
  let ?ops1 = "[Rotate, DispatchLLM rate_limiting_remote sample_inputs, Rotate]
                :: (string, string) operation list"
  have a: "api_keys ?configured \<noteq> []"
    using credential_cursor_invariant[where config_paths = "[Missing, ApiKeys (Inr ''gsk_a, gsk_b '')]"
        and loaded_prompts = Map.empty and new_node = ?configured
        and self = two_key_node and ops = ?ops
        and api_utils_get_prompt_content = get_prompt_content
        and tensor_to_pil = sample_tensor_to_pil and encode_image = sample_encode_image]
      init_from_config
    by blast
  have sub: "set [Missing, NoApiKeysSection] \<subseteq> {Missing, NoApiKeysSection}" by simp
  have b: "init [Missing, NoApiKeysSection] Map.empty = Inr ?default"
    using credential_cursor_invariant[where config_paths = "[Missing, NoApiKeysSection]"
        and loaded_prompts = Map.empty and new_node = ?default
        and self = two_key_node and ops = ?ops
        and api_utils_get_prompt_content = get_prompt_content
        and tensor_to_pil = sample_tensor_to_pil and encode_image = sample_encode_image]
      sub
    by blast
  note t = credential_cursor_invariant[where config_paths = "[Missing, NoApiKeysSection]"
        and loaded_prompts = Map.empty and new_node = ?default
        and self = two_key_node and ops = ?ops
        and api_utils_get_prompt_content = get_prompt_content
        and tensor_to_pil = sample_tensor_to_pil and encode_image = sample_encode_image]
  have c: "api_keys (run_operations get_prompt_content sample_tensor_to_pil sample_encode_image
      two_key_node ?ops) = api_keys two_key_node"
    and d: "current_key_index (run_operations get_prompt_content sample_tensor_to_pil
      sample_encode_image two_key_node ?ops) <
      length (api_keys (run_operations get_prompt_content sample_tensor_to_pil
      sample_encode_image two_key_node ?ops))"
    using t two_key_node_valid by blast+
  have k: "api_keys two_key_node = [''gsk_first'', ''gsk_second'']"
    by (simp add: two_key_node_def)
  have d': "current_key_index (run_operations get_prompt_content sample_tensor_to_pil
      sample_encode_image two_key_node ?ops) < 2"
    using d unfolding c k by simp
  have v: "valid_cursor ?default \<and> length (api_keys ?default) = 1"
    by (simp add: valid_cursor_def)
  have e: "current_key_index (run_operations get_prompt_content sample_tensor_to_pil
      sample_encode_image ?default ?ops1) = current_key_index ?default"
    using credential_cursor_invariant[where config_paths = "[Missing, NoApiKeysSection]"
        and loaded_prompts = Map.empty and new_node = ?default
        and self = ?default and ops = ?ops1
        and api_utils_get_prompt_content = get_prompt_content
        and tensor_to_pil = sample_tensor_to_pil and encode_image = sample_encode_image]
      v
    by blast
  have e': "current_key_index (run_operations get_prompt_content sample_tensor_to_pil
      sample_encode_image ?default ?ops1) = 0"
    using e by simp
  show ?thesis
    using init_from_config a b two_key_node_valid c[unfolded k] d' e' by blast
qed

end
